theory Spec2Isabelle
  imports Complex_Main "HOL-Library.Word" "HOL-Library.Signed_Division"
begin

section \<open>Machine types\<close>

text \<open>
  The C++ types of \<^verbatim>\<open>opencv_processor.h\<close>: \<^verbatim>\<open>uint8_t\<close> is an 8-bit word, \<^verbatim>\<open>int\<close> and
  \<^verbatim>\<open>jint\<close> are 32-bit words read as two's complement, \<^verbatim>\<open>size_t\<close> is a 64-bit word, and a
  \<^verbatim>\<open>double\<close> is its IEEE-754 binary64 bit pattern (the processor only stores and passes
  doubles on, it never computes with them).
\<close>

type_synonym uint8 = "8 word"
type_synonym int32 = "32 word"
type_synonym size_t = "64 word"
type_synonym double = "64 word"

text \<open>\<^verbatim>\<open>a / b\<close> on \<^verbatim>\<open>int\<close>: the quotient truncated towards zero.\<close>

definition c_div :: "int32 \<Rightarrow> int32 \<Rightarrow> int32" where
  "c_div a b = word_of_int (sint a sdiv sint b)"

text \<open>
  The value of a double with a normal exponent, as a rational number; zero, subnormals,
  infinities and NaN give \<open>None\<close>.
\<close>

definition double_value :: "double \<Rightarrow> rat option" where
  "double_value d =
     (let e = (uint d div 2 ^ 52) mod 2 ^ 11;
          m = uint d mod 2 ^ 52;
          s = (if uint d div 2 ^ 63 = 1 then - 1 else 1)
      in if e = 0 \<or> e = 2047 then None
         else Some (s * of_int (2 ^ 52 + m) * (if 1075 \<le> e then 2 ^ nat (e - 1075)
                                               else 1 / 2 ^ nat (1075 - e))))"

text \<open>The literals \<^verbatim>\<open>50.0\<close>, \<^verbatim>\<open>150.0\<close> and \<^verbatim>\<open>1.5\<close> of the source.\<close>

definition double_50 :: double where
  "double_50 = 0x4049000000000000"

definition double_150 :: double where
  "double_150 = 0x4062C00000000000"

definition double_1_5 :: double where
  "double_1_5 = 0x3FF8000000000000"

text \<open>
  An operation either returns or runs into undefined behaviour of C++ (here: a
  \<^verbatim>\<open>memcpy\<close> outside the bounds of one of its buffers).
\<close>

datatype 'a outcome = Returns 'a | Undefined_Behaviour

text \<open>
  \<^verbatim>\<open>memcpy(dst, src, n)\<close> with \<^verbatim>\<open>n\<close> an \<^verbatim>\<open>int\<close> expression converted to \<^verbatim>\<open>size_t\<close>: a
  negative \<^verbatim>\<open>n\<close> becomes a size beyond every buffer. \<open>None\<close> is the out-of-bounds access.
\<close>

definition memcpy :: "uint8 list \<Rightarrow> uint8 list \<Rightarrow> int32 \<Rightarrow> uint8 list option" where
  "memcpy dst src n =
     (if 0 \<le> sint n \<and> nat (sint n) \<le> length src \<and> nat (sint n) \<le> length dst
      then Some (take (nat (sint n)) src @ drop (nat (sint n)) dst)
      else None)"

section \<open>The OpenCV interface\<close>

text \<open>
  OpenCV is not part of the repository. A \<^verbatim>\<open>cv::Mat\<close> is its header (rows, columns,
  element type) and its bytes. The routines the processor calls are parameters: each is a
  function of its source matrix and arguments that either throws \<^verbatim>\<open>cv::Exception\<close> (\<open>Inl\<close>,
  with the text of \<^verbatim>\<open>what()\<close>) and leaves the destination as it was, or yields the new
  destination matrix. \<open>uninitialized\<close> gives the bytes found in freshly allocated memory,
  and \<open>allocation_fails k n\<close> says whether the \<open>k\<close>-th matrix construction of a call, asking
  for \<open>n\<close> bytes, runs out of memory.
\<close>

datatype MatType = CV_8UC1 | CV_8UC4

datatype ColorConversionCodes = COLOR_YUV2RGBA_NV21 | COLOR_RGBA2GRAY | COLOR_GRAY2RGBA

record Mat =
  rows :: int32
  cols :: int32
  mtype :: MatType
  data :: "uint8 list"

type_synonym cv_Exception = string

record opencv =
  uninitialized :: "nat \<Rightarrow> uint8"
  allocation_fails :: "nat \<Rightarrow> nat \<Rightarrow> bool"
  cvtColor :: "Mat \<Rightarrow> ColorConversionCodes \<Rightarrow> cv_Exception + Mat"
  GaussianBlur :: "Mat \<Rightarrow> int32 \<times> int32 \<Rightarrow> double \<Rightarrow> cv_Exception + Mat"
  Canny :: "Mat \<Rightarrow> double \<Rightarrow> double \<Rightarrow> int32 \<Rightarrow> cv_Exception + Mat"

fun elemSize :: "MatType \<Rightarrow> nat" where
  "elemSize CV_8UC1 = 1"
| "elemSize CV_8UC4 = 4"

text \<open>
  \<^verbatim>\<open>cv::Mat()\<close>, \<^verbatim>\<open>cv::Mat(rows, cols, type)\<close> and \<^verbatim>\<open>Mat::release()\<close>. The constructor
  with sizes throws \<^verbatim>\<open>cv::Exception\<close> when a size is negative and when the bytes cannot be
  allocated; the size in bytes is computed in \<^verbatim>\<open>size_t\<close> and does not wrap.
\<close>

definition Mat_empty :: Mat where
  "Mat_empty = \<lparr>rows = 0, cols = 0, mtype = CV_8UC1, data = []\<rparr>"

definition Mat_create ::
  "opencv \<Rightarrow> nat \<Rightarrow> int32 \<Rightarrow> int32 \<Rightarrow> MatType \<Rightarrow> cv_Exception + Mat" where
  "Mat_create cv k r c t =
     (if r <s 0 \<or> c <s 0 then Inl ''s >= 0''
      else if allocation_fails cv k (nat (sint r) * nat (sint c) * elemSize t)
      then Inl ''Failed to allocate memory''
      else Inr \<lparr>rows = r, cols = c, mtype = t,
                data = map (uninitialized cv)
                  [0 ..< nat (sint r) * nat (sint c) * elemSize t]\<rparr>)"

text \<open>
  What OpenCV documents for \<^verbatim>\<open>COLOR_GRAY2RGBA\<close> on 8-bit data: the grey value \<open>g\<close> becomes the
  pixel \<open>(g, g, g, 255)\<close>.
\<close>

definition gray2rgba_pixels :: "uint8 list \<Rightarrow> uint8 list" where
  "gray2rgba_pixels gs = concat (map (\<lambda>g. [g, g, g, 255]) gs)"

definition Mat_release :: "Mat \<Rightarrow> Mat" where
  "Mat_release m = m\<lparr>rows := 0, cols := 0, data := []\<rparr>"

section \<open>The frame processor\<close>

text \<open>The fields of \<^verbatim>\<open>class OpenCVProcessor\<close>, in the order of the header.\<close>

record OpenCVProcessor =
  frameWidth :: int32
  frameHeight :: int32
  cannyLowThreshold :: double
  cannyHighThreshold :: double
  yuvMat :: Mat
  rgbaMat :: Mat
  grayMat :: Mat
  edgesMat :: Mat
  tempMat :: Mat
  initialized :: bool

text \<open>\<^verbatim>\<open>enum ProcessingMode\<close>; the bridge casts any \<^verbatim>\<open>jint\<close> to it.\<close>

definition MODE_RAW :: int32 where
  "MODE_RAW = 0"

definition MODE_GRAYSCALE :: int32 where
  "MODE_GRAYSCALE = 1"

definition MODE_CANNY :: int32 where
  "MODE_CANNY = 2"

text \<open>The lines written to the Android log, one constructor for each format string.\<close>

datatype log_msg =
    LOGI_created
  | LOGE_Invalid_dimensions int32 int32
  | LOGI_Initialized int32 int32
  | LOGE_not_initialized
  | LOGE_Null_pointers
  | LOGE_Unknown_mode int32
  | LOGE_OpenCV_exception cv_Exception
  | LOGI_thresholds_updated double double
  | LOGI_Resources_released

text \<open>The constructor \<^verbatim>\<open>OpenCVProcessor::OpenCVProcessor()\<close>.\<close>

definition OpenCVProcessor_new :: "log_msg list \<times> OpenCVProcessor" where
  "OpenCVProcessor_new =
     ([LOGI_created],
      \<lparr>frameWidth = 0, frameHeight = 0,
       cannyLowThreshold = double_50, cannyHighThreshold = double_150,
       yuvMat = Mat_empty, rgbaMat = Mat_empty, grayMat = Mat_empty,
       edgesMat = Mat_empty, tempMat = Mat_empty,
       initialized = False\<rparr>)"

text \<open>
  \<^verbatim>\<open>bool init(int width, int height)\<close>: how the call ends, the lines logged and the
  processor after the call. \<^verbatim>\<open>init\<close> has no handler, so an exception of a matrix
  constructor leaves the call, with the assignments made before it in place. The sum
  \<^verbatim>\<open>height + height / 2\<close> wraps around when it overflows, to a negative row count.
\<close>

datatype init_result = Init_returns bool | Init_throws cv_Exception

definition init ::
  "opencv \<Rightarrow> OpenCVProcessor \<Rightarrow> int32 \<Rightarrow> int32
     \<Rightarrow> init_result \<times> log_msg list \<times> OpenCVProcessor" where
  "init cv p width height =
     (if width \<le>s 0 \<or> height \<le>s 0
      then (Init_returns False, [LOGE_Invalid_dimensions width height], p)
      else
        let p1 = p\<lparr>frameWidth := width, frameHeight := height\<rparr>
        in case Mat_create cv 0 (height + c_div height 2) width CV_8UC1 of
             Inl e \<Rightarrow> (Init_throws e, [], p1)
           | Inr m1 \<Rightarrow>
        let p2 = p1\<lparr>yuvMat := m1\<rparr>
        in case Mat_create cv 1 height width CV_8UC4 of
             Inl e \<Rightarrow> (Init_throws e, [], p2)
           | Inr m2 \<Rightarrow>
        let p3 = p2\<lparr>rgbaMat := m2\<rparr>
        in case Mat_create cv 2 height width CV_8UC1 of
             Inl e \<Rightarrow> (Init_throws e, [], p3)
           | Inr m3 \<Rightarrow>
        let p4 = p3\<lparr>grayMat := m3\<rparr>
        in case Mat_create cv 3 height width CV_8UC1 of
             Inl e \<Rightarrow> (Init_throws e, [], p4)
           | Inr m4 \<Rightarrow>
        let p5 = p4\<lparr>edgesMat := m4\<rparr>
        in case Mat_create cv 4 height width CV_8UC4 of
             Inl e \<Rightarrow> (Init_throws e, [], p5)
           | Inr m5 \<Rightarrow>
        let p6 = p5\<lparr>tempMat := m5\<rparr>
        in (Init_returns True, [LOGI_Initialized width height], p6\<lparr>initialized := True\<rparr>))"

text \<open>\<^verbatim>\<open>void setCannyThresholds(double low, double high)\<close>.\<close>

definition setCannyThresholds ::
  "OpenCVProcessor \<Rightarrow> double \<Rightarrow> double \<Rightarrow> log_msg list \<times> OpenCVProcessor" where
  "setCannyThresholds p low high =
     ([LOGI_thresholds_updated low high],
      p\<lparr>cannyLowThreshold := low, cannyHighThreshold := high\<rparr>)"

text \<open>\<^verbatim>\<open>void release()\<close>.\<close>

definition release :: "OpenCVProcessor \<Rightarrow> log_msg list \<times> OpenCVProcessor" where
  "release p =
     (if initialized p
      then ([LOGI_Resources_released],
            p\<lparr>yuvMat := Mat_release (yuvMat p),
              rgbaMat := Mat_release (rgbaMat p),
              grayMat := Mat_release (grayMat p),
              edgesMat := Mat_release (edgesMat p),
              tempMat := Mat_release (tempMat p),
              initialized := False\<rparr>)
      else ([], p))"

text \<open>
  \<^verbatim>\<open>void yuvToRgba(const uint8_t* yuvData, cv::Mat& output)\<close>: the processor after the
  call, and the exception thrown or the new value of \<^verbatim>\<open>output\<close>.
\<close>

definition yuvToRgba ::
  "opencv \<Rightarrow> OpenCVProcessor \<Rightarrow> uint8 list \<Rightarrow> (OpenCVProcessor \<times> (cv_Exception + Mat)) outcome" where
  "yuvToRgba cv p yuvData =
     (case memcpy (data (yuvMat p)) yuvData (c_div (frameWidth p * frameHeight p * 3) 2) of
        None \<Rightarrow> Undefined_Behaviour
      | Some d \<Rightarrow>
          let p1 = p\<lparr>yuvMat := (yuvMat p)\<lparr>data := d\<rparr>\<rparr>
          in Returns (p1, cvtColor cv (yuvMat p1) COLOR_YUV2RGBA_NV21))"

text \<open>\<^verbatim>\<open>void applyGrayscale(const cv::Mat& input, cv::Mat& output)\<close>.\<close>

definition applyGrayscale ::
  "opencv \<Rightarrow> OpenCVProcessor \<Rightarrow> Mat \<Rightarrow> OpenCVProcessor \<times> (cv_Exception + Mat)" where
  "applyGrayscale cv p input =
     (case cvtColor cv input COLOR_RGBA2GRAY of
        Inl e \<Rightarrow> (p, Inl e)
      | Inr g \<Rightarrow>
          let p1 = p\<lparr>grayMat := g\<rparr>
          in (p1, cvtColor cv (grayMat p1) COLOR_GRAY2RGBA))"

text \<open>\<^verbatim>\<open>void applyCanny(const cv::Mat& input, cv::Mat& output)\<close>.\<close>

definition applyCanny ::
  "opencv \<Rightarrow> OpenCVProcessor \<Rightarrow> Mat \<Rightarrow> OpenCVProcessor \<times> (cv_Exception + Mat)" where
  "applyCanny cv p input =
     (case cvtColor cv input COLOR_RGBA2GRAY of
        Inl e \<Rightarrow> (p, Inl e)
      | Inr g \<Rightarrow>
          let p1 = p\<lparr>grayMat := g\<rparr>
          in case GaussianBlur cv (grayMat p1) (5, 5) double_1_5 of
               Inl e \<Rightarrow> (p1, Inl e)
             | Inr b \<Rightarrow>
                 let p2 = p1\<lparr>grayMat := b\<rparr>
                 in case Canny cv (grayMat p2) (cannyLowThreshold p2) (cannyHighThreshold p2) 3 of
                      Inl e \<Rightarrow> (p2, Inl e)
                    | Inr c \<Rightarrow>
                        let p3 = p2\<lparr>edgesMat := c\<rparr>
                        in (p3, cvtColor cv (edgesMat p3) COLOR_GRAY2RGBA))"

text \<open>
  What a call of \<^verbatim>\<open>processFrame\<close> leaves behind: the returned flag, the lines logged,
  the processor, and the caller's output buffer (\<open>None\<close> for a null pointer).
\<close>

record frame_result =
  returned :: bool
  logged :: "log_msg list"
  processor :: OpenCVProcessor
  out_buffer :: "uint8 list option"

text \<open>
  \<^verbatim>\<open>memcpy(outputRgba, m.data, frameWidth * frameHeight * 4); break;\<close> followed by
  \<^verbatim>\<open>return true\<close>, the common tail of the three modes.
\<close>

definition copy_out :: "OpenCVProcessor \<Rightarrow> Mat \<Rightarrow> uint8 list \<Rightarrow> frame_result outcome" where
  "copy_out p m out =
     (case memcpy out (data m) (frameWidth p * frameHeight p * 4) of
        None \<Rightarrow> Undefined_Behaviour
      | Some out' \<Rightarrow>
          Returns \<lparr>returned = True, logged = [], processor = p, out_buffer = Some out'\<rparr>)"

text \<open>The handler \<^verbatim>\<open>catch (const cv::Exception& e)\<close>.\<close>

definition caught :: "cv_Exception \<Rightarrow> OpenCVProcessor \<Rightarrow> uint8 list \<Rightarrow> frame_result outcome" where
  "caught e p out =
     Returns \<lparr>returned = False, logged = [LOGE_OpenCV_exception e], processor = p,
              out_buffer = Some out\<rparr>"

text \<open>
  \<^verbatim>\<open>bool processFrame(const uint8_t* yuvData, size_t yuvSize, uint8_t* outputRgba,
  ProcessingMode mode)\<close>. A pointer is \<open>None\<close> when null and otherwise the buffer it points
  to; the two buffers are distinct from each other and from the processor's matrices.
\<close>

definition processFrame ::
  "opencv \<Rightarrow> OpenCVProcessor \<Rightarrow> uint8 list option \<Rightarrow> size_t \<Rightarrow> uint8 list option \<Rightarrow> int32
     \<Rightarrow> frame_result outcome" where
  "processFrame cv p yuvData yuvSize outputRgba mode =
     (if \<not> initialized p
      then Returns \<lparr>returned = False, logged = [LOGE_not_initialized], processor = p,
                    out_buffer = outputRgba\<rparr>
      else case (yuvData, outputRgba) of
        (Some yuv, Some out) \<Rightarrow>
          (case yuvToRgba cv p yuv of
             Undefined_Behaviour \<Rightarrow> Undefined_Behaviour
           | Returns (p1, Inl e) \<Rightarrow> caught e p1 out
           | Returns (p1, Inr rgba) \<Rightarrow>
               let p2 = p1\<lparr>rgbaMat := rgba\<rparr>
               in if mode = MODE_RAW then copy_out p2 (rgbaMat p2) out
                  else if mode = MODE_GRAYSCALE then
                    (case applyGrayscale cv p2 (rgbaMat p2) of
                       (p3, Inl e) \<Rightarrow> caught e p3 out
                     | (p3, Inr t) \<Rightarrow>
                         let p4 = p3\<lparr>tempMat := t\<rparr> in copy_out p4 (tempMat p4) out)
                  else if mode = MODE_CANNY then
                    (case applyCanny cv p2 (rgbaMat p2) of
                       (p3, Inl e) \<Rightarrow> caught e p3 out
                     | (p3, Inr t) \<Rightarrow>
                         let p4 = p3\<lparr>tempMat := t\<rparr> in copy_out p4 (tempMat p4) out)
                  else Returns \<lparr>returned = False, logged = [LOGE_Unknown_mode mode],
                                processor = p2, out_buffer = Some out\<rparr>)
      | _ \<Rightarrow> Returns \<lparr>returned = False, logged = [LOGE_Null_pointers], processor = p,
                      out_buffer = outputRgba\<rparr>)"

text \<open>
  What a caller can see of a call: the flag, the log and the output buffer, or the
  undefined behaviour.
\<close>

fun observed :: "frame_result outcome \<Rightarrow> (bool \<times> log_msg list \<times> uint8 list option) outcome" where
  "observed (Returns r) = Returns (returned r, logged r, out_buffer r)"
| "observed Undefined_Behaviour = Undefined_Behaviour"

section \<open>The JNI entry point for frames\<close>

text \<open>
  \<^verbatim>\<open>Java_com_edgedetection_viewer_FrameProcessor_nativeProcessFrame\<close> of
  \<^verbatim>\<open>jni_bridge.cpp\<close>. A Java byte array is the list of its bytes. The environment decides
  whether \<^verbatim>\<open>GetByteArrayElements\<close> can hand out the elements of an array or returns null.
\<close>

record JNIEnv =
  elements_unavailable :: "uint8 list \<Rightarrow> bool"

definition GetByteArrayElements :: "JNIEnv \<Rightarrow> uint8 list \<Rightarrow> uint8 list option" where
  "GetByteArrayElements env a = (if elements_unavailable env a then None else Some a)"

definition GetArrayLength :: "uint8 list \<Rightarrow> int32" where
  "GetArrayLength a = of_nat (length a)"

datatype jni_log =
    JNI_LOGE_not_initialized
  | JNI_LOGE_Failed_input_bytes
  | JNI_LOGE_Failed_output_bytes
  | JNI_LOGE_Input_size_mismatch int32 int32
  | JNI_LOGE_Output_size_mismatch int32 int32
  | JNI_LOGE_Frame_processing_failed
  | Processor_log log_msg

record native_result =
  jreturned :: bool
  jlogged :: "jni_log list"
  g_processor :: "OpenCVProcessor option"
  output_array :: "uint8 list"

definition nativeProcessFrame ::
  "JNIEnv \<Rightarrow> opencv \<Rightarrow> OpenCVProcessor option \<Rightarrow> uint8 list \<Rightarrow> uint8 list
     \<Rightarrow> int32 \<Rightarrow> int32 \<Rightarrow> int32 \<Rightarrow> native_result outcome" where
  "nativeProcessFrame env cv g input output width height mode =
     (case g of
        None \<Rightarrow> Returns \<lparr>jreturned = False, jlogged = [JNI_LOGE_not_initialized],
                         g_processor = g, output_array = output\<rparr>
      | Some p \<Rightarrow>
         (case GetByteArrayElements env input of
            None \<Rightarrow> Returns \<lparr>jreturned = False, jlogged = [JNI_LOGE_Failed_input_bytes],
                             g_processor = g, output_array = output\<rparr>
          | Some inputBytes \<Rightarrow>
             (case GetByteArrayElements env output of
                None \<Rightarrow> Returns \<lparr>jreturned = False, jlogged = [JNI_LOGE_Failed_output_bytes],
                                 g_processor = g, output_array = output\<rparr>
              | Some outputBytes \<Rightarrow>
                  let inputSize = GetArrayLength input;
                      outputSize = GetArrayLength output;
                      expectedInputSize = c_div (width * height * 3) 2;
                      expectedOutputSize = width * height * 4
                  in if inputSize <s expectedInputSize
                     then Returns \<lparr>jreturned = False,
                                   jlogged = [JNI_LOGE_Input_size_mismatch expectedInputSize inputSize],
                                   g_processor = g, output_array = output\<rparr>
                     else if outputSize <s expectedOutputSize
                     then Returns \<lparr>jreturned = False,
                                   jlogged = [JNI_LOGE_Output_size_mismatch expectedOutputSize outputSize],
                                   g_processor = g, output_array = output\<rparr>
                     else (case processFrame cv p (Some inputBytes) (scast inputSize)
                                  (Some outputBytes) mode of
                             Undefined_Behaviour \<Rightarrow> Undefined_Behaviour
                           | Returns r \<Rightarrow>
                               Returns \<lparr>jreturned = returned r,
                                        jlogged = map Processor_log (logged r) @
                                          (if returned r then [] else [JNI_LOGE_Frame_processing_failed]),
                                        g_processor = Some (processor r),
                                        output_array =
                                          (case out_buffer r of None \<Rightarrow> output | Some b \<Rightarrow> b)\<rparr>))))"

section \<open>A library instance for concrete frames\<close>

text \<open>
  To run the processor on concrete frames the library parameter needs a value. This
  instance never runs out of memory, converts the luma plane only, leaves the image as it
  is when blurring and marks the bright pixels as edges; as OpenCV does, its NV21
  conversion rejects a matrix with an odd number of columns or a number of rows that is
  not a multiple of three. It is used in the examples only: every theorem below is proved
  for an arbitrary library.
\<close>

definition luma_to_rgba :: "uint8 list \<Rightarrow> uint8 list" where
  "luma_to_rgba ys = concat (map (\<lambda>y. [y, y, y, 255]) ys)"

fun rgba_to_luma :: "uint8 list \<Rightarrow> uint8 list" where
  "rgba_to_luma (r # g # b # a # rest) = g # rgba_to_luma rest"
| "rgba_to_luma _ = []"

definition example_cvtColor :: "Mat \<Rightarrow> ColorConversionCodes \<Rightarrow> cv_Exception + Mat" where
  "example_cvtColor m code =
     (case code of
        COLOR_YUV2RGBA_NV21 \<Rightarrow>
          if even (sint (cols m)) \<and> sint (rows m) mod 3 = 0
          then Inr \<lparr>rows = c_div (rows m * 2) 3, cols = cols m, mtype = CV_8UC4,
                    data = luma_to_rgba
                      (take (nat (sint (c_div (rows m * 2) 3)) * nat (sint (cols m))) (data m))\<rparr>
          else Inl ''sz.width % 2 == 0 && sz.height % 3 == 0''
      | COLOR_RGBA2GRAY \<Rightarrow>
          Inr \<lparr>rows = rows m, cols = cols m, mtype = CV_8UC1, data = rgba_to_luma (data m)\<rparr>
      | COLOR_GRAY2RGBA \<Rightarrow>
          Inr \<lparr>rows = rows m, cols = cols m, mtype = CV_8UC4,
                data = gray2rgba_pixels (data m)\<rparr>)"

definition example_cv :: opencv where
  "example_cv =
     \<lparr>uninitialized = (\<lambda>i. 0xCD),
      allocation_fails = (\<lambda>k n. False),
      cvtColor = example_cvtColor,
      GaussianBlur = (\<lambda>m ksize sigma. Inr m),
      Canny = (\<lambda>m low high aperture.
                 Inr (m\<lparr>data := map (\<lambda>v. if 128 \<le> v then 255 else 0) (data m)\<rparr>))\<rparr>"

text \<open>A processor initialised for frames of 2 by 2 pixels, and the environment in which
  array elements are always available.\<close>

definition processor_2x2 :: OpenCVProcessor where
  "processor_2x2 = snd (snd (init example_cv (snd OpenCVProcessor_new) 2 2))"

definition example_env :: JNIEnv where
  "example_env = \<lparr>elements_unavailable = (\<lambda>a. False)\<rparr>"

text \<open>A frame of 2 by 2 pixels, an output buffer of 16 bytes, the converted frame, and the
  processor after the conversion of that frame.\<close>

definition yuv_2x2 :: "uint8 list" where
  "yuv_2x2 = [10, 200, 30, 40, 50, 60]"

definition out_16 :: "uint8 list" where
  "out_16 = [7, 7, 7, 7, 7, 7, 7, 7, 7, 7, 7, 7, 7, 7, 7, 7]"

definition rgba_2x2 :: Mat where
  "rgba_2x2 = \<lparr>rows = 2, cols = 2, mtype = CV_8UC4,
     data = [10, 10, 10, 255, 200, 200, 200, 255, 30, 30, 30, 255, 40, 40, 40, 255]\<rparr>"

definition after_conversion_2x2 :: OpenCVProcessor where
  "after_conversion_2x2 =
     processor_2x2\<lparr>yuvMat := (yuvMat processor_2x2)\<lparr>data := yuv_2x2\<rparr>, rgbaMat := rgba_2x2\<rparr>"




text \<open>An input one byte short of a 2 by 2 frame, and one with two bytes more than a frame.\<close>

definition yuv_short :: "uint8 list" where
  "yuv_short = [10, 200, 30, 40, 50]"

definition yuv_long :: "uint8 list" where
  "yuv_long = [10, 200, 30, 40, 50, 60, 99, 98]"

text \<open>
  Processors initialised for frames of 1 by 1, 3 by 2 (odd width) and 2 by 3 (odd height)
  pixels, with an input of the full frame size \<open>width * height * 3 / 2\<close> and an output of
  at least \<open>width * height * 4\<close> bytes for each: 1 and 4 bytes for the first, 9 and 24 bytes
  for the other two.
\<close>

definition processor_1x1 :: OpenCVProcessor where
  "processor_1x1 = snd (snd (init example_cv (snd OpenCVProcessor_new) 1 1))"


definition processor_2x3 :: OpenCVProcessor where
  "processor_2x3 = snd (snd (init example_cv (snd OpenCVProcessor_new) 2 3))"

definition yuv_1 :: "uint8 list" where
  "yuv_1 = [9]"

definition out_4 :: "uint8 list" where
  "out_4 = [7, 7, 7, 7]"

definition yuv_9 :: "uint8 list" where
  "yuv_9 = [1, 2, 3, 4, 5, 6, 7, 8, 9]"

definition out_24 :: "uint8 list" where
  "out_24 = replicate 24 7"

section \<open>Auxiliary facts\<close>

subsection \<open>Copying\<close>

lemma memcpy_length: "memcpy dst src n = Some d \<Longrightarrow> length d = length dst"
  by (auto simp: memcpy_def split: if_splits)

lemma memcpy_drop:
  "memcpy dst src n = Some d \<Longrightarrow> drop (nat (sint n)) d = drop (nat (sint n)) dst"
  by (auto simp: memcpy_def split: if_splits)

lemma memcpy_cong:
  "length dst' = length dst \<Longrightarrow> drop (nat (sint n)) dst' = drop (nat (sint n)) dst \<Longrightarrow>
   memcpy dst' src n = memcpy dst src n"
  by (simp add: memcpy_def)

lemma memcpy_take_cong:
  assumes "take (nat (sint n)) a = take (nat (sint n)) b"
  shows "memcpy dst a n = memcpy dst b n"
proof -
  have "min (nat (sint n)) (length a) = min (nat (sint n)) (length b)"
    using arg_cong [OF assms, of length] by simp
  then have "nat (sint n) \<le> length a \<longleftrightarrow> nat (sint n) \<le> length b"
    by linarith
  with assms show ?thesis by (simp add: memcpy_def)
qed

subsection \<open>The two filters\<close>

lemma applyGrayscale_result:
  "snd (applyGrayscale cv p i) =
     (case cvtColor cv i COLOR_RGBA2GRAY of
        Inl e \<Rightarrow> Inl e
      | Inr g \<Rightarrow> cvtColor cv g COLOR_GRAY2RGBA)"
  by (simp add: applyGrayscale_def Let_def split: sum.splits)

lemma applyGrayscale_scalars:
  "frameWidth (fst (applyGrayscale cv p i)) = frameWidth p \<and>
   frameHeight (fst (applyGrayscale cv p i)) = frameHeight p \<and>
   cannyLowThreshold (fst (applyGrayscale cv p i)) = cannyLowThreshold p \<and>
   cannyHighThreshold (fst (applyGrayscale cv p i)) = cannyHighThreshold p \<and>
   initialized (fst (applyGrayscale cv p i)) = initialized p \<and>
   yuvMat (fst (applyGrayscale cv p i)) = yuvMat p"
  by (simp add: applyGrayscale_def Let_def split: sum.splits)

lemma applyCanny_result:
  "snd (applyCanny cv p i) =
     (case cvtColor cv i COLOR_RGBA2GRAY of
        Inl e \<Rightarrow> Inl e
      | Inr g \<Rightarrow>
         (case GaussianBlur cv g (5, 5) double_1_5 of
            Inl e \<Rightarrow> Inl e
          | Inr b \<Rightarrow>
             (case Canny cv b (cannyLowThreshold p) (cannyHighThreshold p) 3 of
                Inl e \<Rightarrow> Inl e
              | Inr c \<Rightarrow> cvtColor cv c COLOR_GRAY2RGBA)))"
  by (simp add: applyCanny_def Let_def split: sum.splits)

lemma applyCanny_scalars:
  "frameWidth (fst (applyCanny cv p i)) = frameWidth p \<and>
   frameHeight (fst (applyCanny cv p i)) = frameHeight p \<and>
   cannyLowThreshold (fst (applyCanny cv p i)) = cannyLowThreshold p \<and>
   cannyHighThreshold (fst (applyCanny cv p i)) = cannyHighThreshold p \<and>
   initialized (fst (applyCanny cv p i)) = initialized p \<and>
   yuvMat (fst (applyCanny cv p i)) = yuvMat p"
  by (simp add: applyCanny_def Let_def split: sum.splits)

subsection \<open>The pipeline, step by step\<close>

lemma copy_out_processor: "copy_out p m out = Returns r \<Longrightarrow> processor r = p"
  by (auto simp: copy_out_def split: option.splits)

lemma caught_processor: "caught e p out = Returns r \<Longrightarrow> processor r = p"
  by (auto simp: caught_def)

lemma processFrame_null:
  "yuvData = None \<or> outputRgba = None \<Longrightarrow>
   processFrame cv p yuvData yuvSize outputRgba mode =
     Returns \<lparr>returned = False,
              logged = [if initialized p then LOGE_Null_pointers else LOGE_not_initialized],
              processor = p, out_buffer = outputRgba\<rparr>"
  by (auto simp: processFrame_def split: option.splits)

lemma processFrame_unfold:
  "processFrame cv p (Some yuv) yuvSize (Some out) mode =
     (if \<not> initialized p
      then Returns \<lparr>returned = False, logged = [LOGE_not_initialized], processor = p,
                    out_buffer = Some out\<rparr>
      else case memcpy (data (yuvMat p)) yuv (c_div (frameWidth p * frameHeight p * 3) 2) of
        None \<Rightarrow> Undefined_Behaviour
      | Some d \<Rightarrow>
         (let p1 = p\<lparr>yuvMat := (yuvMat p)\<lparr>data := d\<rparr>\<rparr> in
          case cvtColor cv (yuvMat p1) COLOR_YUV2RGBA_NV21 of
            Inl e \<Rightarrow> caught e p1 out
          | Inr rgba \<Rightarrow>
             (let p2 = p1\<lparr>rgbaMat := rgba\<rparr> in
              if mode = MODE_RAW then copy_out p2 rgba out
              else if mode = MODE_GRAYSCALE then
                (case snd (applyGrayscale cv p2 rgba) of
                   Inl e \<Rightarrow> caught e (fst (applyGrayscale cv p2 rgba)) out
                 | Inr t \<Rightarrow> copy_out ((fst (applyGrayscale cv p2 rgba))\<lparr>tempMat := t\<rparr>) t out)
              else if mode = MODE_CANNY then
                (case snd (applyCanny cv p2 rgba) of
                   Inl e \<Rightarrow> caught e (fst (applyCanny cv p2 rgba)) out
                 | Inr t \<Rightarrow> copy_out ((fst (applyCanny cv p2 rgba))\<lparr>tempMat := t\<rparr>) t out)
              else Returns \<lparr>returned = False, logged = [LOGE_Unknown_mode mode],
                            processor = p2, out_buffer = Some out\<rparr>)))"
  by (simp add: processFrame_def yuvToRgba_def Let_def split: option.splits sum.splits prod.splits)

lemma processFrame_keeps:
  assumes "processFrame cv p yuvData yuvSize outputRgba mode = Returns r"
  shows "frameWidth (processor r) = frameWidth p \<and>
         frameHeight (processor r) = frameHeight p \<and>
         cannyLowThreshold (processor r) = cannyLowThreshold p \<and>
         cannyHighThreshold (processor r) = cannyHighThreshold p \<and>
         initialized (processor r) = initialized p \<and>
         (\<exists>d. yuvMat (processor r) = (yuvMat p)\<lparr>data := d\<rparr> \<and>
              length d = length (data (yuvMat p)) \<and>
              drop (nat (sint (c_div (frameWidth p * frameHeight p * 3) 2))) d =
              drop (nat (sint (c_div (frameWidth p * frameHeight p * 3) 2))) (data (yuvMat p)))"
proof (cases "yuvData = None \<or> outputRgba = None")
  case True
  from processFrame_null [OF True, of cv p yuvSize mode] assms
  have "processor r = p" by auto
  then show ?thesis by (auto intro: exI [of _ "data (yuvMat p)"])
next
  case False
  then obtain yuv out where io: "yuvData = Some yuv" "outputRgba = Some out" by auto
  show ?thesis
  proof (cases "initialized p")
    case False
    with assms io have "processor r = p" by (auto simp: processFrame_unfold)
    then show ?thesis by (auto intro: exI [of _ "data (yuvMat p)"])
  next
    case True
    let ?n = "c_div (frameWidth p * frameHeight p * 3) 2"
    from assms io True obtain d where d: "memcpy (data (yuvMat p)) yuv ?n = Some d"
      by (auto simp: processFrame_unfold split: option.splits)
    have scal: "frameWidth (processor r) = frameWidth p \<and>
         frameHeight (processor r) = frameHeight p \<and>
         cannyLowThreshold (processor r) = cannyLowThreshold p \<and>
         cannyHighThreshold (processor r) = cannyHighThreshold p \<and>
         initialized (processor r) = initialized p \<and>
         yuvMat (processor r) = (yuvMat p)\<lparr>data := d\<rparr>"
      using assms io True d
      by (auto simp: processFrame_unfold Let_def applyGrayscale_scalars applyCanny_scalars
          split: sum.splits if_splits dest!: copy_out_processor caught_processor)
    with memcpy_length [OF d] memcpy_drop [OF d] show ?thesis by auto
  qed
qed

subsection \<open>What the caller sees depends on few fields\<close>

lemma observed_copy_out_eq:
  "observed (copy_out p m out) =
     (case memcpy out (data m) (frameWidth p * frameHeight p * 4) of
        None \<Rightarrow> Undefined_Behaviour
      | Some out' \<Rightarrow> Returns (True, [], Some out'))"
  by (simp add: copy_out_def split: option.splits)

lemma observed_caught_eq:
  "observed (caught e p out) = Returns (False, [LOGE_OpenCV_exception e], Some out)"
  by (simp add: caught_def)

lemma observed_branch:
  assumes "frameWidth p' = w" "frameHeight p' = h"
  shows "observed (case s of Inl e \<Rightarrow> caught e p' out
                           | Inr t \<Rightarrow> copy_out (p'\<lparr>tempMat := t\<rparr>) t out) =
         (case s of
            Inl e \<Rightarrow> Returns (False, [LOGE_OpenCV_exception e], Some out)
          | Inr t \<Rightarrow>
             (case memcpy out (data t) (w * h * 4) of
                None \<Rightarrow> Undefined_Behaviour
              | Some out' \<Rightarrow> Returns (True, [], Some out')))"
  using assms by (cases s) (simp_all add: observed_copy_out_eq observed_caught_eq)

lemma observed_processFrame:
  "observed (processFrame cv p (Some yuv) yuvSize (Some out) mode) =
     (if \<not> initialized p then Returns (False, [LOGE_not_initialized], Some out)
      else case memcpy (data (yuvMat p)) yuv (c_div (frameWidth p * frameHeight p * 3) 2) of
        None \<Rightarrow> Undefined_Behaviour
      | Some d \<Rightarrow>
         (case cvtColor cv ((yuvMat p)\<lparr>data := d\<rparr>) COLOR_YUV2RGBA_NV21 of
            Inl e \<Rightarrow> Returns (False, [LOGE_OpenCV_exception e], Some out)
          | Inr rgba \<Rightarrow>
              if mode = MODE_RAW then
                (case memcpy out (data rgba) (frameWidth p * frameHeight p * 4) of
                   None \<Rightarrow> Undefined_Behaviour
                 | Some out' \<Rightarrow> Returns (True, [], Some out'))
              else if mode = MODE_GRAYSCALE then
                (case snd (applyGrayscale cv p rgba) of
                   Inl e \<Rightarrow> Returns (False, [LOGE_OpenCV_exception e], Some out)
                 | Inr t \<Rightarrow>
                    (case memcpy out (data t) (frameWidth p * frameHeight p * 4) of
                       None \<Rightarrow> Undefined_Behaviour
                     | Some out' \<Rightarrow> Returns (True, [], Some out')))
              else if mode = MODE_CANNY then
                (case snd (applyCanny cv p rgba) of
                   Inl e \<Rightarrow> Returns (False, [LOGE_OpenCV_exception e], Some out)
                 | Inr t \<Rightarrow>
                    (case memcpy out (data t) (frameWidth p * frameHeight p * 4) of
                       None \<Rightarrow> Undefined_Behaviour
                     | Some out' \<Rightarrow> Returns (True, [], Some out')))
              else Returns (False, [LOGE_Unknown_mode mode], Some out)))"
proof (cases "initialized p")
  case False
  then show ?thesis by (simp add: processFrame_unfold)
next
  case True
  let ?n = "c_div (frameWidth p * frameHeight p * 3) 2"
  show ?thesis
  proof (cases "memcpy (data (yuvMat p)) yuv ?n")
    case None
    with True show ?thesis by (simp add: processFrame_unfold)
  next
    case (Some d)
    let ?p1 = "p\<lparr>yuvMat := (yuvMat p)\<lparr>data := d\<rparr>\<rparr>"
    show ?thesis
    proof (cases "cvtColor cv ((yuvMat p)\<lparr>data := d\<rparr>) COLOR_YUV2RGBA_NV21")
      case (Inl e)
      with True Some show ?thesis
        by (simp add: processFrame_unfold observed_caught_eq)
    next
      case (Inr rgba)
      let ?p2 = "?p1\<lparr>rgbaMat := rgba\<rparr>"
      have g: "snd (applyGrayscale cv ?p2 rgba) = snd (applyGrayscale cv p rgba)"
        by (simp add: applyGrayscale_result)
      have c: "snd (applyCanny cv ?p2 rgba) = snd (applyCanny cv p rgba)"
        by (simp add: applyCanny_result cong: sum.case_cong)
      have gw: "frameWidth (fst (applyGrayscale cv ?p2 rgba)) = frameWidth p"
        and gh: "frameHeight (fst (applyGrayscale cv ?p2 rgba)) = frameHeight p"
        and cw: "frameWidth (fst (applyCanny cv ?p2 rgba)) = frameWidth p"
        and ch: "frameHeight (fst (applyCanny cv ?p2 rgba)) = frameHeight p"
        by (simp_all add: applyGrayscale_scalars applyCanny_scalars)
      have unf: "processFrame cv p (Some yuv) yuvSize (Some out) mode =
          (if mode = MODE_RAW then copy_out ?p2 rgba out
           else if mode = MODE_GRAYSCALE then
             (case snd (applyGrayscale cv ?p2 rgba) of
                Inl e \<Rightarrow> caught e (fst (applyGrayscale cv ?p2 rgba)) out
              | Inr t \<Rightarrow> copy_out ((fst (applyGrayscale cv ?p2 rgba))\<lparr>tempMat := t\<rparr>) t out)
           else if mode = MODE_CANNY then
             (case snd (applyCanny cv ?p2 rgba) of
                Inl e \<Rightarrow> caught e (fst (applyCanny cv ?p2 rgba)) out
              | Inr t \<Rightarrow> copy_out ((fst (applyCanny cv ?p2 rgba))\<lparr>tempMat := t\<rparr>) t out)
           else Returns \<lparr>returned = False, logged = [LOGE_Unknown_mode mode],
                         processor = ?p2, out_buffer = Some out\<rparr>)"
        using True Some Inr by (simp add: processFrame_unfold Let_def)
      consider "mode = MODE_RAW"
        | "mode \<noteq> MODE_RAW" "mode = MODE_GRAYSCALE"
        | "mode \<noteq> MODE_RAW" "mode \<noteq> MODE_GRAYSCALE" "mode = MODE_CANNY"
        | "mode \<noteq> MODE_RAW" "mode \<noteq> MODE_GRAYSCALE" "mode \<noteq> MODE_CANNY"
        by blast
      then show ?thesis
      proof cases
        case 1
        have "observed (processFrame cv p (Some yuv) yuvSize (Some out) mode) =
              observed (copy_out ?p2 rgba out)"
          by (subst unf) (use 1 in simp)
        then show ?thesis using True Some Inr 1 by (simp add: observed_copy_out_eq)
      next
        case 2
        have "observed (processFrame cv p (Some yuv) yuvSize (Some out) mode) =
              observed (case snd (applyGrayscale cv ?p2 rgba) of
                Inl e \<Rightarrow> caught e (fst (applyGrayscale cv ?p2 rgba)) out
              | Inr t \<Rightarrow> copy_out ((fst (applyGrayscale cv ?p2 rgba))\<lparr>tempMat := t\<rparr>) t out)"
          by (subst unf) (use 2 in simp)
        also have "\<dots> = (case snd (applyGrayscale cv p rgba) of
                   Inl e \<Rightarrow> Returns (False, [LOGE_OpenCV_exception e], Some out)
                 | Inr t \<Rightarrow>
                    (case memcpy out (data t) (frameWidth p * frameHeight p * 4) of
                       None \<Rightarrow> Undefined_Behaviour
                     | Some out' \<Rightarrow> Returns (True, [], Some out')))"
          by (simp only: observed_branch [OF gw gh] g)
        finally show ?thesis using True Some Inr 2 by simp
      next
        case 3
        have "observed (processFrame cv p (Some yuv) yuvSize (Some out) mode) =
              observed (case snd (applyCanny cv ?p2 rgba) of
                Inl e \<Rightarrow> caught e (fst (applyCanny cv ?p2 rgba)) out
              | Inr t \<Rightarrow> copy_out ((fst (applyCanny cv ?p2 rgba))\<lparr>tempMat := t\<rparr>) t out)"
          by (subst unf) (use 3 in simp)
        also have "\<dots> = (case snd (applyCanny cv p rgba) of
                   Inl e \<Rightarrow> Returns (False, [LOGE_OpenCV_exception e], Some out)
                 | Inr t \<Rightarrow>
                    (case memcpy out (data t) (frameWidth p * frameHeight p * 4) of
                       None \<Rightarrow> Undefined_Behaviour
                     | Some out' \<Rightarrow> Returns (True, [], Some out')))"
          by (simp only: observed_branch [OF cw ch] c)
        finally show ?thesis using True Some Inr 3 by simp
      next
        case 4
        have "observed (processFrame cv p (Some yuv) yuvSize (Some out) mode) =
              Returns (False, [LOGE_Unknown_mode mode], Some out)"
          using 4 by (simp add: unf)
        then show ?thesis using True Some Inr 4 by simp
      qed
    qed
  qed
qed

lemma observed_processFrame_cong:
  assumes "initialized q = initialized p"
    and "frameWidth q = frameWidth p" and "frameHeight q = frameHeight p"
    and "cannyLowThreshold q = cannyLowThreshold p"
    and "cannyHighThreshold q = cannyHighThreshold p"
    and "yuvMat q = (yuvMat p)\<lparr>data := d\<rparr>"
    and "length d = length (data (yuvMat p))"
    and "drop (nat (sint (c_div (frameWidth p * frameHeight p * 3) 2))) d =
         drop (nat (sint (c_div (frameWidth p * frameHeight p * 3) 2))) (data (yuvMat p))"
  shows "observed (processFrame cv q yuvData yuvSize outputRgba mode) =
         observed (processFrame cv p yuvData yuvSize outputRgba mode)"
proof (cases "yuvData = None \<or> outputRgba = None")
  case True
  show ?thesis
    by (simp add: processFrame_null [OF True] assms)
next
  case False
  then obtain yuv out where io: "yuvData = Some yuv" "outputRgba = Some out" by auto
  let ?n = "c_div (frameWidth p * frameHeight p * 3) 2"
  have m: "memcpy (data (yuvMat q)) yuv ?n = memcpy (data (yuvMat p)) yuv ?n"
    by (rule memcpy_cong) (simp_all add: assms)
  have y: "(yuvMat q)\<lparr>data := e\<rparr> = (yuvMat p)\<lparr>data := e\<rparr>" for e
    using assms by simp
  have g: "snd (applyGrayscale cv q i) = snd (applyGrayscale cv p i)" for i
    by (simp add: applyGrayscale_result)
  have c: "snd (applyCanny cv q i) = snd (applyCanny cv p i)" for i
    by (simp add: applyCanny_result assms(4,5) cong: sum.case_cong)
  show ?thesis
    unfolding io observed_processFrame
    by (simp only: assms(1-3) m y g c)
qed

subsection \<open>The example frame\<close>

lemmas run_defs =
  processFrame_def yuvToRgba_def applyGrayscale_def applyCanny_def copy_out_def caught_def
  memcpy_def c_div_def init_def OpenCVProcessor_new_def Mat_create_def Mat_empty_def
  example_cv_def example_cvtColor_def luma_to_rgba_def gray2rgba_pixels_def processor_2x2_def
  yuv_2x2_def out_16_def rgba_2x2_def after_conversion_2x2_def
  MODE_RAW_def MODE_GRAYSCALE_def MODE_CANNY_def word_sle_eq word_sless_alt upt_rec Let_def

lemma processor_2x2_eq:
  "processor_2x2 =
     \<lparr>frameWidth = 2, frameHeight = 2,
      cannyLowThreshold = double_50, cannyHighThreshold = double_150,
      yuvMat = \<lparr>rows = 3, cols = 2, mtype = CV_8UC1, data = replicate 6 0xCD\<rparr>,
      rgbaMat = \<lparr>rows = 2, cols = 2, mtype = CV_8UC4, data = replicate 16 0xCD\<rparr>,
      grayMat = \<lparr>rows = 2, cols = 2, mtype = CV_8UC1, data = replicate 4 0xCD\<rparr>,
      edgesMat = \<lparr>rows = 2, cols = 2, mtype = CV_8UC1, data = replicate 4 0xCD\<rparr>,
      tempMat = \<lparr>rows = 2, cols = 2, mtype = CV_8UC4, data = replicate 16 0xCD\<rparr>,
      initialized = True\<rparr>"
  by (simp add: run_defs eval_nat_numeral)

lemma example_memcpy_in:
  "memcpy (data (yuvMat processor_2x2)) yuv_2x2
     (c_div (frameWidth processor_2x2 * frameHeight processor_2x2 * 3) 2) = Some yuv_2x2"
  by (simp add: processor_2x2_eq memcpy_def c_div_def yuv_2x2_def)

lemma example_convert:
  "cvtColor example_cv ((yuvMat processor_2x2)\<lparr>data := yuv_2x2\<rparr>) COLOR_YUV2RGBA_NV21 =
     Inr rgba_2x2"
  by (simp add: processor_2x2_eq example_cv_def example_cvtColor_def c_div_def yuv_2x2_def
      rgba_2x2_def luma_to_rgba_def)

lemma example_unknown_mode:
  "processFrame example_cv processor_2x2 (Some yuv_2x2) 6 (Some out_16) 7 =
     Returns \<lparr>returned = False, logged = [LOGE_Unknown_mode 7],
              processor = after_conversion_2x2, out_buffer = Some out_16\<rparr>"
  by (simp add: processFrame_unfold example_memcpy_in example_convert after_conversion_2x2_def
      MODE_RAW_def MODE_GRAYSCALE_def MODE_CANNY_def)
    (simp add: processor_2x2_eq)

lemma example_raw:
  "processFrame example_cv processor_2x2 (Some yuv_2x2) 6 (Some out_16) MODE_RAW =
     Returns \<lparr>returned = True, logged = [],
              processor = after_conversion_2x2, out_buffer = Some (data rgba_2x2)\<rparr>"
  by (simp add: processFrame_unfold example_memcpy_in example_convert after_conversion_2x2_def
      MODE_RAW_def copy_out_def)
    (simp add: processor_2x2_eq memcpy_def rgba_2x2_def out_16_def)

lemma example_initialized: "initialized processor_2x2"
  by (simp add: processor_2x2_eq)






lemma example_create:
  "\<not> r <s 0 \<Longrightarrow> \<not> c <s 0 \<Longrightarrow>
   Mat_create example_cv k r c t =
     Inr \<lparr>rows = r, cols = c, mtype = t,
          data = replicate (nat (sint r) * nat (sint c) * elemSize t) 0xCD\<rparr>"
  by (simp add: Mat_create_def example_cv_def map_replicate_const)

lemma processor_1x1_eq:
  "processor_1x1 =
     \<lparr>frameWidth = 1, frameHeight = 1,
      cannyLowThreshold = double_50, cannyHighThreshold = double_150,
      yuvMat = \<lparr>rows = 1, cols = 1, mtype = CV_8UC1, data = replicate 1 0xCD\<rparr>,
      rgbaMat = \<lparr>rows = 1, cols = 1, mtype = CV_8UC4, data = replicate 4 0xCD\<rparr>,
      grayMat = \<lparr>rows = 1, cols = 1, mtype = CV_8UC1, data = replicate 1 0xCD\<rparr>,
      edgesMat = \<lparr>rows = 1, cols = 1, mtype = CV_8UC1, data = replicate 1 0xCD\<rparr>,
      tempMat = \<lparr>rows = 1, cols = 1, mtype = CV_8UC4, data = replicate 4 0xCD\<rparr>,
      initialized = True\<rparr>"
  by (simp add: processor_1x1_def init_def OpenCVProcessor_new_def Mat_empty_def example_create
      c_div_def signed_divide_int_def word_sle_eq word_sless_alt Let_def)


lemma processor_2x3_eq:
  "processor_2x3 =
     \<lparr>frameWidth = 2, frameHeight = 3,
      cannyLowThreshold = double_50, cannyHighThreshold = double_150,
      yuvMat = \<lparr>rows = 4, cols = 2, mtype = CV_8UC1, data = replicate 8 0xCD\<rparr>,
      rgbaMat = \<lparr>rows = 3, cols = 2, mtype = CV_8UC4, data = replicate 24 0xCD\<rparr>,
      grayMat = \<lparr>rows = 3, cols = 2, mtype = CV_8UC1, data = replicate 6 0xCD\<rparr>,
      edgesMat = \<lparr>rows = 3, cols = 2, mtype = CV_8UC1, data = replicate 6 0xCD\<rparr>,
      tempMat = \<lparr>rows = 3, cols = 2, mtype = CV_8UC4, data = replicate 24 0xCD\<rparr>,
      initialized = True\<rparr>"
  by (simp add: processor_2x3_def init_def OpenCVProcessor_new_def Mat_empty_def example_create
      c_div_def signed_divide_int_def word_sle_eq word_sless_alt Let_def)

lemma odd_height_overruns:
  "processFrame example_cv processor_2x3 (Some yuv_9) yuvSize (Some out_24) mode =
     Undefined_Behaviour"
  by (simp add: processFrame_unfold)
    (simp add: processor_2x3_eq memcpy_def c_div_def yuv_9_def)

lemma example_rejects_odd_width:
  "odd (sint (cols m)) \<Longrightarrow>
   cvtColor example_cv m COLOR_YUV2RGBA_NV21 = Inl ''sz.width % 2 == 0 && sz.height % 3 == 0''"
  by (simp add: example_cv_def example_cvtColor_def)

lemma odd_width_1x1:
  "processFrame example_cv processor_1x1 (Some yuv_1) yuvSize (Some out_4) mode =
     Returns \<lparr>returned = False,
              logged = [LOGE_OpenCV_exception ''sz.width % 2 == 0 && sz.height % 3 == 0''],
              processor = processor_1x1\<lparr>yuvMat := (yuvMat processor_1x1)\<lparr>data := yuv_1\<rparr>\<rparr>,
              out_buffer = Some out_4\<rparr>"
proof -
  have i: "initialized processor_1x1"
    by (simp add: processor_1x1_eq)
  have m: "memcpy (data (yuvMat processor_1x1)) yuv_1
      (c_div (frameWidth processor_1x1 * frameHeight processor_1x1 * 3) 2) = Some yuv_1"
    by (simp add: processor_1x1_eq memcpy_def c_div_def signed_divide_int_def yuv_1_def)
  have c: "cvtColor example_cv ((yuvMat processor_1x1)\<lparr>data := yuv_1\<rparr>) COLOR_YUV2RGBA_NV21 =
      Inl ''sz.width % 2 == 0 && sz.height % 3 == 0''"
    by (rule example_rejects_odd_width) (simp add: processor_1x1_eq)
  show ?thesis
    by (simp add: processFrame_unfold i m c caught_def)
qed



section \<open>Uninitialised processors\<close>

text \<open>
  C3. On a processor whose \<open>initialized\<close> flag is false, \<open>processFrame\<close> returns for all
  arguments and every library: it returns false, logs "Processor not initialized", and
  leaves the processor (all five matrices included) and the output buffer as they were.
\<close>

theorem processFrame_uninitialized:
  "\<not> initialized p \<Longrightarrow>
   processFrame cv p yuvData yuvSize outputRgba mode =
     Returns \<lparr>returned = False, logged = [LOGE_not_initialized], processor = p,
              out_buffer = outputRgba\<rparr>"
  by (simp add: processFrame_def)

theorem processFrame_uninitialized_witness:
  "\<not> initialized (snd OpenCVProcessor_new) \<and>
   processFrame example_cv (snd OpenCVProcessor_new) (Some yuv_2x2) 6 (Some out_16) MODE_CANNY =
     Returns \<lparr>returned = False, logged = [LOGE_not_initialized],
              processor = snd OpenCVProcessor_new, out_buffer = Some out_16\<rparr>"
proof -
  have h: "\<not> initialized (snd OpenCVProcessor_new)"
    by (simp add: OpenCVProcessor_new_def)
  show ?thesis
    using h processFrame_uninitialized [OF h, of example_cv "Some yuv_2x2" 6 "Some out_16" MODE_CANNY]
    by simp
qed

section \<open>Initialisation\<close>

text \<open>
  C4, as the code has it. \<open>init\<close> with a width or height that is not positive returns
  false and leaves the whole processor as it was; on a fresh processor \<open>init(0, 10)\<close>
  fails, the processor stays uninitialised, and the next \<open>processFrame\<close> fails with
  "Processor not initialized". With both positive, and when each of the five matrix
  constructions yields a matrix, \<open>init\<close> returns true, stores the two dimensions and the
  five matrices and sets \<open>initialized\<close>.
\<close>

theorem init_dimensions:
  "(width \<le>s 0 \<or> height \<le>s 0 \<longrightarrow>
      init cv p width height =
        (Init_returns False, [LOGE_Invalid_dimensions width height], p)) \<and>
   (0 <s width \<and> 0 <s height \<and>
    Mat_create cv 0 (height + c_div height 2) width CV_8UC1 = Inr m1 \<and>
    Mat_create cv 1 height width CV_8UC4 = Inr m2 \<and>
    Mat_create cv 2 height width CV_8UC1 = Inr m3 \<and>
    Mat_create cv 3 height width CV_8UC1 = Inr m4 \<and>
    Mat_create cv 4 height width CV_8UC4 = Inr m5 \<longrightarrow>
      init cv p width height =
        (Init_returns True, [LOGI_Initialized width height],
         p\<lparr>frameWidth := width, frameHeight := height, yuvMat := m1, rgbaMat := m2,
           grayMat := m3, edgesMat := m4, tempMat := m5, initialized := True\<rparr>)) \<and>
   init cv (snd OpenCVProcessor_new) 0 10 =
     (Init_returns False, [LOGE_Invalid_dimensions 0 10], snd OpenCVProcessor_new) \<and>
   \<not> initialized (snd (snd (init cv (snd OpenCVProcessor_new) 0 10))) \<and>
   processFrame cv (snd (snd (init cv (snd OpenCVProcessor_new) 0 10)))
       yuvData yuvSize outputRgba mode =
     Returns \<lparr>returned = False, logged = [LOGE_not_initialized],
              processor = snd OpenCVProcessor_new, out_buffer = outputRgba\<rparr>"
proof -
  have fresh: "\<not> initialized (snd OpenCVProcessor_new)"
    by (simp add: OpenCVProcessor_new_def)
  have bad: "init cv q 0 10 = (Init_returns False, [LOGE_Invalid_dimensions 0 10], q)" for q
    by (simp add: init_def word_sle_eq)
  have neg: "width \<le>s 0 \<or> height \<le>s 0 \<Longrightarrow>
      init cv p width height =
        (Init_returns False, [LOGE_Invalid_dimensions width height], p)"
    by (simp add: init_def)
  have pos: "init cv p width height =
        (Init_returns True, [LOGI_Initialized width height],
         p\<lparr>frameWidth := width, frameHeight := height, yuvMat := m1, rgbaMat := m2,
           grayMat := m3, edgesMat := m4, tempMat := m5, initialized := True\<rparr>)"
    if "0 <s width" "0 <s height"
      "Mat_create cv 0 (height + c_div height 2) width CV_8UC1 = Inr m1"
      "Mat_create cv 1 height width CV_8UC4 = Inr m2"
      "Mat_create cv 2 height width CV_8UC1 = Inr m3"
      "Mat_create cv 3 height width CV_8UC1 = Inr m4"
      "Mat_create cv 4 height width CV_8UC4 = Inr m5"
    using that by (simp add: init_def word_sle_eq word_sless_alt)
  show ?thesis
    using neg pos by (simp add: bad fresh processFrame_def)
qed

theorem init_dimensions_witness:
  "((0 :: int32) \<le>s 0 \<or> (10 :: int32) \<le>s 0) \<and>
   init example_cv processor_2x2 0 10 =
     (Init_returns False, [LOGE_Invalid_dimensions 0 10], processor_2x2) \<and>
   (0 :: int32) <s 4 \<and> (0 :: int32) <s 2 \<and>
   Mat_create example_cv 0 (2 + c_div 2 2) 4 CV_8UC1 =
     Inr \<lparr>rows = 3, cols = 4, mtype = CV_8UC1, data = replicate 12 0xCD\<rparr> \<and>
   Mat_create example_cv 1 2 4 CV_8UC4 =
     Inr \<lparr>rows = 2, cols = 4, mtype = CV_8UC4, data = replicate 32 0xCD\<rparr> \<and>
   Mat_create example_cv 2 2 4 CV_8UC1 =
     Inr \<lparr>rows = 2, cols = 4, mtype = CV_8UC1, data = replicate 8 0xCD\<rparr> \<and>
   Mat_create example_cv 3 2 4 CV_8UC1 =
     Inr \<lparr>rows = 2, cols = 4, mtype = CV_8UC1, data = replicate 8 0xCD\<rparr> \<and>
   Mat_create example_cv 4 2 4 CV_8UC4 =
     Inr \<lparr>rows = 2, cols = 4, mtype = CV_8UC4, data = replicate 32 0xCD\<rparr> \<and>
   init example_cv processor_2x2 4 2 =
     (Init_returns True, [LOGI_Initialized 4 2],
      processor_2x2\<lparr>frameWidth := 4, frameHeight := 2,
        yuvMat := \<lparr>rows = 3, cols = 4, mtype = CV_8UC1, data = replicate 12 0xCD\<rparr>,
        rgbaMat := \<lparr>rows = 2, cols = 4, mtype = CV_8UC4, data = replicate 32 0xCD\<rparr>,
        grayMat := \<lparr>rows = 2, cols = 4, mtype = CV_8UC1, data = replicate 8 0xCD\<rparr>,
        edgesMat := \<lparr>rows = 2, cols = 4, mtype = CV_8UC1, data = replicate 8 0xCD\<rparr>,
        tempMat := \<lparr>rows = 2, cols = 4, mtype = CV_8UC4, data = replicate 32 0xCD\<rparr>,
        initialized := True\<rparr>) \<and>
   processFrame example_cv (snd (snd (init example_cv (snd OpenCVProcessor_new) 0 10)))
       (Some yuv_2x2) 6 (Some out_16) MODE_RAW =
     Returns \<lparr>returned = False, logged = [LOGE_not_initialized],
              processor = snd OpenCVProcessor_new, out_buffer = Some out_16\<rparr>"
proof -
  have a: "(0 :: int32) \<le>s 0 \<or> (10 :: int32) \<le>s 0"
    by (simp add: word_sle_eq)
  have b: "(0 :: int32) <s 4" "(0 :: int32) <s 2"
    by (simp_all add: word_sless_alt)
  have m1: "Mat_create example_cv 0 (2 + c_div 2 2) 4 CV_8UC1 =
     Inr \<lparr>rows = 3, cols = 4, mtype = CV_8UC1, data = replicate 12 0xCD\<rparr>"
    by (simp add: example_create c_div_def word_sless_alt)
  have m2: "Mat_create example_cv 1 2 4 CV_8UC4 =
     Inr \<lparr>rows = 2, cols = 4, mtype = CV_8UC4, data = replicate 32 0xCD\<rparr>"
    by (simp add: example_create word_sless_alt)
  have m3: "Mat_create example_cv 2 2 4 CV_8UC1 =
     Inr \<lparr>rows = 2, cols = 4, mtype = CV_8UC1, data = replicate 8 0xCD\<rparr>"
    by (simp add: example_create word_sless_alt)
  have m4: "Mat_create example_cv 3 2 4 CV_8UC1 =
     Inr \<lparr>rows = 2, cols = 4, mtype = CV_8UC1, data = replicate 8 0xCD\<rparr>"
    by (simp add: example_create word_sless_alt)
  have m5: "Mat_create example_cv 4 2 4 CV_8UC4 =
     Inr \<lparr>rows = 2, cols = 4, mtype = CV_8UC4, data = replicate 32 0xCD\<rparr>"
    by (simp add: example_create word_sless_alt)
  show ?thesis
    using a b m1 m2 m3 m4 m5
      init_dimensions [of 0 10 example_cv processor_2x2 _ _ _ _ _
        "Some yuv_2x2" 6 "Some out_16" MODE_RAW]
      init_dimensions [of 4 2 example_cv processor_2x2
        "\<lparr>rows = 3, cols = 4, mtype = CV_8UC1, data = replicate 12 0xCD\<rparr>"
        "\<lparr>rows = 2, cols = 4, mtype = CV_8UC4, data = replicate 32 0xCD\<rparr>"
        "\<lparr>rows = 2, cols = 4, mtype = CV_8UC1, data = replicate 8 0xCD\<rparr>"
        "\<lparr>rows = 2, cols = 4, mtype = CV_8UC1, data = replicate 8 0xCD\<rparr>"
        "\<lparr>rows = 2, cols = 4, mtype = CV_8UC4, data = replicate 32 0xCD\<rparr>"
        "Some yuv_2x2" 6 "Some out_16" MODE_RAW]
    by simp
qed

text \<open>
  C4 as stated fails for a height whose row count \<open>height + height / 2\<close> overflows: for
  width 1 and height \<open>2\<^sup>3\<^sup>1 - 1\<close>, both positive, the first matrix construction is given a
  negative row count and throws, and the exception leaves \<open>init\<close> with the two dimensions
  already overwritten; the call does not return success.
\<close>

theorem init_overflowing_height_counterexample:
  "(0 :: int32) <s 1 \<and> (0 :: int32) <s 0x7FFFFFFF \<and>
   init example_cv (snd OpenCVProcessor_new) 1 0x7FFFFFFF =
     (Init_throws ''s >= 0'', [],
      (snd OpenCVProcessor_new)\<lparr>frameWidth := 1, frameHeight := 0x7FFFFFFF\<rparr>)"
  by (simp add: init_def Mat_create_def c_div_def word_sle_eq word_sless_alt)

section \<open>Release\<close>

text \<open>
  C6. \<open>release\<close> is idempotent: a second \<open>release\<close> changes nothing and logs nothing, so
  two calls leave the state that one call leaves; after \<open>release\<close> the flag
  \<open>initialized\<close> is false; and on a processor that is not initialised (never initialised
  or already released) \<open>release\<close> is a no-op.
\<close>

theorem release_idempotent:
  "snd (release (snd (release p))) = snd (release p) \<and>
   release (snd (release p)) = ([], snd (release p)) \<and>
   \<not> initialized (snd (release p)) \<and>
   (\<not> initialized p \<longrightarrow> release p = ([], p))"
  by (simp add: release_def)

theorem release_idempotent_witness:
  "\<not> initialized (snd OpenCVProcessor_new) \<and>
   release (snd OpenCVProcessor_new) = ([], snd OpenCVProcessor_new) \<and>
   snd (release (snd (release processor_2x2))) = snd (release processor_2x2) \<and>
   \<not> initialized (snd (release processor_2x2)) \<and>
   fst (release processor_2x2) = [LOGI_Resources_released]"
proof -
  have h: "\<not> initialized (snd OpenCVProcessor_new)"
    by (simp add: OpenCVProcessor_new_def)
  have i: "initialized processor_2x2"
    by (simp add: processor_2x2_eq)
  show ?thesis
    using h i release_idempotent [of "snd OpenCVProcessor_new"] release_idempotent [of processor_2x2]
    by (simp add: release_def)
qed

section \<open>Thresholds\<close>

text \<open>
  C8. A freshly constructed processor holds the thresholds 50.0 and 150.0, and
  \<open>setCannyThresholds\<close> stores the two doubles it is given exactly as given, whatever
  their order and whether or not the processor is initialised, changing no other field.
\<close>

theorem thresholds_default_and_stored:
  "cannyLowThreshold (snd OpenCVProcessor_new) = double_50 \<and>
   cannyHighThreshold (snd OpenCVProcessor_new) = double_150 \<and>
   double_value double_50 = Some 50 \<and>
   double_value double_150 = Some 150 \<and>
   cannyLowThreshold (snd (setCannyThresholds p low high)) = low \<and>
   cannyHighThreshold (snd (setCannyThresholds p low high)) = high \<and>
   snd (setCannyThresholds p low high) =
     p\<lparr>cannyLowThreshold := low, cannyHighThreshold := high\<rparr>"
  by (simp add: OpenCVProcessor_new_def setCannyThresholds_def double_value_def
      double_50_def double_150_def)

text \<open>
  C10. Neither \<open>release\<close> nor \<open>init\<close> (successful or failed) changes the stored
  thresholds: thresholds set before a release and re-initialisation are the thresholds of
  the processor afterwards.
\<close>

theorem thresholds_survive_release_and_init:
  "cannyLowThreshold (snd (release p)) = cannyLowThreshold p \<and>
   cannyHighThreshold (snd (release p)) = cannyHighThreshold p \<and>
   cannyLowThreshold (snd (snd (init cv p width height))) = cannyLowThreshold p \<and>
   cannyHighThreshold (snd (snd (init cv p width height))) = cannyHighThreshold p \<and>
   cannyLowThreshold
     (snd (snd (init cv (snd (release (snd (setCannyThresholds p low high)))) width height))) = low \<and>
   cannyHighThreshold
     (snd (snd (init cv (snd (release (snd (setCannyThresholds p low high)))) width height))) = high"
  by (simp add: release_def init_def setCannyThresholds_def Let_def split: sum.splits)

section \<open>Failing calls\<close>

text \<open>
  C2. A call of \<open>processFrame\<close> that returns false leaves the width, the height, the two
  thresholds and the flag \<open>initialized\<close> of the processor as they were, and any later call
  on the processor it leaves behind gives the caller what the same call on the processor
  before would have given: the same flag, the same log line and the same output buffer.
\<close>

theorem processFrame_failure_keeps_processor:
  assumes "processFrame cv p yuvData yuvSize outputRgba mode = Returns r"
    and "\<not> returned r"
  shows "frameWidth (processor r) = frameWidth p \<and>
         frameHeight (processor r) = frameHeight p \<and>
         cannyLowThreshold (processor r) = cannyLowThreshold p \<and>
         cannyHighThreshold (processor r) = cannyHighThreshold p \<and>
         initialized (processor r) = initialized p \<and>
         observed (processFrame cv (processor r) yuvData' yuvSize' outputRgba' mode') =
         observed (processFrame cv p yuvData' yuvSize' outputRgba' mode')"
proof -
  from processFrame_keeps [OF assms(1)] obtain d where
    k: "frameWidth (processor r) = frameWidth p"
       "frameHeight (processor r) = frameHeight p"
       "cannyLowThreshold (processor r) = cannyLowThreshold p"
       "cannyHighThreshold (processor r) = cannyHighThreshold p"
       "initialized (processor r) = initialized p"
       "yuvMat (processor r) = (yuvMat p)\<lparr>data := d\<rparr>"
       "length d = length (data (yuvMat p))"
       "drop (nat (sint (c_div (frameWidth p * frameHeight p * 3) 2))) d =
        drop (nat (sint (c_div (frameWidth p * frameHeight p * 3) 2))) (data (yuvMat p))"
    by blast
  from observed_processFrame_cong [OF k(5) k(1) k(2) k(3) k(4) k(6) k(7) k(8)] k(1-5)
  show ?thesis by simp
qed

theorem processFrame_failure_keeps_processor_witness:
  "processFrame example_cv processor_2x2 (Some yuv_2x2) 6 (Some out_16) 7 =
     Returns \<lparr>returned = False, logged = [LOGE_Unknown_mode 7],
              processor = after_conversion_2x2, out_buffer = Some out_16\<rparr> \<and>
   frameWidth after_conversion_2x2 = frameWidth processor_2x2 \<and>
   frameHeight after_conversion_2x2 = frameHeight processor_2x2 \<and>
   cannyLowThreshold after_conversion_2x2 = cannyLowThreshold processor_2x2 \<and>
   cannyHighThreshold after_conversion_2x2 = cannyHighThreshold processor_2x2 \<and>
   initialized after_conversion_2x2 \<and>
   observed (processFrame example_cv after_conversion_2x2
       (Some [1, 2, 3, 4, 5, 6]) 6 (Some out_16) MODE_CANNY) =
   observed (processFrame example_cv processor_2x2
       (Some [1, 2, 3, 4, 5, 6]) 6 (Some out_16) MODE_CANNY)"
proof -
  let ?r = "\<lparr>returned = False, logged = [LOGE_Unknown_mode 7],
             processor = after_conversion_2x2, out_buffer = Some out_16\<rparr>"
  have f: "\<not> returned ?r" by simp
  show ?thesis
    using example_unknown_mode example_initialized
      processFrame_failure_keeps_processor [OF example_unknown_mode f,
        of "Some [1, 2, 3, 4, 5, 6]" 6 "Some out_16" MODE_CANNY]
    by simp
qed

section \<open>Unknown modes\<close>

text \<open>
  C5, as the code has it. On an initialised processor, with an input and an output
  buffer, when the converter step completes (the copy of \<open>frameWidth * frameHeight * 3 / 2\<close>
  bytes stays inside the input and inside the processor's source matrix, and the
  conversion does not throw) and the mode is other than 0, 1 and 2, \<open>processFrame\<close> returns
  false and logs "Unknown processing mode"; the source matrix holds the copied input and
  the converted matrix its conversion; the grey, edge and scratch matrices and the
  caller's output buffer are as before.
\<close>

theorem processFrame_unknown_mode:
  assumes "initialized p"
    and "mode \<noteq> MODE_RAW" and "mode \<noteq> MODE_GRAYSCALE" and "mode \<noteq> MODE_CANNY"
    and "memcpy (data (yuvMat p)) yuv (c_div (frameWidth p * frameHeight p * 3) 2) = Some d"
    and "cvtColor cv ((yuvMat p)\<lparr>data := d\<rparr>) COLOR_YUV2RGBA_NV21 = Inr rgba"
  shows "processFrame cv p (Some yuv) yuvSize (Some out) mode =
           Returns \<lparr>returned = False, logged = [LOGE_Unknown_mode mode],
                    processor = p\<lparr>yuvMat := (yuvMat p)\<lparr>data := d\<rparr>, rgbaMat := rgba\<rparr>,
                    out_buffer = Some out\<rparr>"
  using assms by (simp add: processFrame_unfold)

theorem processFrame_unknown_mode_witness:
  "initialized processor_2x2 \<and>
   (7 :: int32) \<noteq> MODE_RAW \<and> (7 :: int32) \<noteq> MODE_GRAYSCALE \<and> (7 :: int32) \<noteq> MODE_CANNY \<and>
   memcpy (data (yuvMat processor_2x2)) yuv_2x2
     (c_div (frameWidth processor_2x2 * frameHeight processor_2x2 * 3) 2) = Some yuv_2x2 \<and>
   cvtColor example_cv ((yuvMat processor_2x2)\<lparr>data := yuv_2x2\<rparr>) COLOR_YUV2RGBA_NV21 =
     Inr rgba_2x2 \<and>
   processFrame example_cv processor_2x2 (Some yuv_2x2) 6 (Some out_16) 7 =
     Returns \<lparr>returned = False, logged = [LOGE_Unknown_mode 7],
              processor = processor_2x2\<lparr>yuvMat := (yuvMat processor_2x2)\<lparr>data := yuv_2x2\<rparr>,
                                       rgbaMat := rgba_2x2\<rparr>,
              out_buffer = Some out_16\<rparr>"
proof -
  have m: "(7 :: int32) \<noteq> MODE_RAW" "(7 :: int32) \<noteq> MODE_GRAYSCALE" "(7 :: int32) \<noteq> MODE_CANNY"
    by (simp_all add: MODE_RAW_def MODE_GRAYSCALE_def MODE_CANNY_def)
  from m example_initialized example_memcpy_in example_convert
    processFrame_unknown_mode [OF example_initialized m example_memcpy_in example_convert,
      of 6 out_16]
  show ?thesis by (intro conjI)
qed

text \<open>
  C5 as stated fails on initialised processors with an odd width or height, for inputs of
  the full frame size and mode 7. For 1 by 1 the conversion rejects the source matrix, as
  OpenCV's NV21 conversion does for an odd width, and the call reports the exception of
  the library, not the mode. For 2 by 3 the source matrix has \<open>(3 + 3 / 2) * 2 = 8\<close> bytes
  and the copy of \<open>2 * 3 * 3 / 2 = 9\<close> bytes runs over its end, for every library.
\<close>

theorem unknown_mode_converter_counterexample:
  "initialized processor_1x1 \<and>
   (7 :: int32) \<noteq> MODE_RAW \<and> (7 :: int32) \<noteq> MODE_GRAYSCALE \<and> (7 :: int32) \<noteq> MODE_CANNY \<and>
   int (length yuv_1) = 1 * 1 * 3 div 2 \<and>
   processFrame example_cv processor_1x1 (Some yuv_1) 1 (Some out_4) 7 =
     Returns \<lparr>returned = False,
              logged = [LOGE_OpenCV_exception ''sz.width % 2 == 0 && sz.height % 3 == 0''],
              processor = processor_1x1\<lparr>yuvMat := (yuvMat processor_1x1)\<lparr>data := yuv_1\<rparr>\<rparr>,
              out_buffer = Some out_4\<rparr> \<and>
   initialized processor_2x3 \<and>
   int (length yuv_9) = 2 * 3 * 3 div 2 \<and>
   processFrame example_cv processor_2x3 (Some yuv_9) 9 (Some out_24) 7 = Undefined_Behaviour"
proof -
  have i: "initialized processor_1x1" and j: "initialized processor_2x3"
    by (simp_all add: processor_1x1_eq processor_2x3_eq)
  have m: "(7 :: int32) \<noteq> MODE_RAW" "(7 :: int32) \<noteq> MODE_GRAYSCALE" "(7 :: int32) \<noteq> MODE_CANNY"
    by (simp_all add: MODE_RAW_def MODE_GRAYSCALE_def MODE_CANNY_def)
  have k: "int (length yuv_1) = 1 * 1 * 3 div 2" and l: "int (length yuv_9) = 2 * 3 * 3 div 2"
    by (simp_all add: yuv_1_def yuv_9_def)
  from i m k odd_width_1x1 [of 1 7] j l odd_height_overruns [of 9 7]
  show ?thesis by (intro conjI)
qed

section \<open>Edge detection\<close>




section \<open>The size of the input\<close>

text \<open>
  C9. \<open>processFrame\<close> never looks at \<open>yuvSize\<close>, and of the input it reads the first
  \<open>frameWidth * frameHeight * 3 / 2\<close> bytes only: two calls on the same processor with
  the same output pointer and mode, whose inputs agree on these bytes, have the same
  outcome (flag, log, output buffer and processor), whatever the two \<open>yuvSize\<close> arguments
  and the bytes beyond.
\<close>

theorem processFrame_ignores_yuvSize:
  assumes "take (nat (sint (c_div (frameWidth p * frameHeight p * 3) 2))) yuv =
           take (nat (sint (c_div (frameWidth p * frameHeight p * 3) 2))) yuv'"
  shows "processFrame cv p (Some yuv) yuvSize outputRgba mode =
         processFrame cv p (Some yuv') yuvSize' outputRgba mode"
proof (cases outputRgba)
  case None
  then show ?thesis by (simp add: processFrame_null)
next
  case (Some out)
  show ?thesis
    unfolding Some processFrame_unfold memcpy_take_cong [OF assms] by (rule refl)
qed

theorem processFrame_ignores_yuvSize_witness:
  "take (nat (sint (c_div (frameWidth processor_2x2 * frameHeight processor_2x2 * 3) 2))) yuv_2x2 =
   take (nat (sint (c_div (frameWidth processor_2x2 * frameHeight processor_2x2 * 3) 2))) yuv_long \<and>
   yuv_2x2 \<noteq> yuv_long \<and>
   processFrame example_cv processor_2x2 (Some yuv_long) 8 (Some out_16) MODE_RAW =
     Returns \<lparr>returned = True, logged = [],
              processor = after_conversion_2x2, out_buffer = Some (data rgba_2x2)\<rparr>"
proof -
  have h: "take (nat (sint (c_div (frameWidth processor_2x2 * frameHeight processor_2x2 * 3) 2))) yuv_2x2 =
   take (nat (sint (c_div (frameWidth processor_2x2 * frameHeight processor_2x2 * 3) 2))) yuv_long"
    by (simp add: processor_2x2_eq c_div_def yuv_2x2_def yuv_long_def)
  have d: "yuv_2x2 \<noteq> yuv_long"
    by (simp add: yuv_2x2_def yuv_long_def)
  from processFrame_ignores_yuvSize [OF h, of example_cv 6 "Some out_16" MODE_RAW 8]
  have "processFrame example_cv processor_2x2 (Some yuv_long) 8 (Some out_16) MODE_RAW =
     Returns \<lparr>returned = True, logged = [],
              processor = after_conversion_2x2, out_buffer = Some (data rgba_2x2)\<rparr>"
    by (simp add: example_raw)
  with h d show ?thesis by (intro conjI)
qed

text \<open>
  C1 fails on the code: \<open>processFrame\<close> has no test of the input length. On a processor
  for 2 by 2 frames an input of 5 bytes, one byte short, makes the copy into the source
  matrix read beyond the input instead of returning false. The test of the JNI entry
  point does not stand in for it, since it compares with the width and height of the
  call: with width 1 and height 1 an input of one byte passes it, and the same processor
  then copies 6 bytes from it.
\<close>

theorem short_input_is_copied_unchecked:
  "initialized processor_2x2 \<and> frameWidth processor_2x2 = 2 \<and> frameHeight processor_2x2 = 2 \<and>
   int (length yuv_short) = 2 * 2 * 3 div 2 - 1 \<and>
   processFrame example_cv processor_2x2 (Some yuv_short) 5 (Some out_16) MODE_RAW =
     Undefined_Behaviour \<and>
   GetArrayLength yuv_1 = 1 \<and> c_div (1 * 1 * 3) 2 = (1 :: int32) \<and>
   nativeProcessFrame example_env example_cv (Some processor_2x2) yuv_1 out_16 1 1 0 =
     Undefined_Behaviour"
proof -
  have a: "processFrame example_cv processor_2x2 (Some yuv_short) yuvSize (Some out_16) mode =
      Undefined_Behaviour" for yuvSize mode
    by (simp add: processFrame_unfold example_initialized)
      (simp add: processor_2x2_eq memcpy_def c_div_def yuv_short_def)
  have b: "processFrame example_cv processor_2x2 (Some yuv_1) yuvSize (Some out_16) mode =
      Undefined_Behaviour" for yuvSize mode
    by (simp add: processFrame_unfold example_initialized)
      (simp add: processor_2x2_eq memcpy_def c_div_def yuv_1_def)
  have c: "nativeProcessFrame example_env example_cv (Some processor_2x2) yuv_1 out_16 1 1 0 =
      Undefined_Behaviour"
    by (simp add: nativeProcessFrame_def GetByteArrayElements_def example_env_def Let_def b)
      (simp add: GetArrayLength_def yuv_1_def out_16_def c_div_def signed_divide_int_def
        word_sless_alt)
  show ?thesis
    by (simp add: a c example_initialized)
      (simp add: processor_2x2_eq yuv_short_def GetArrayLength_def yuv_1_def c_div_def
        signed_divide_int_def)
qed

end
